theory Spec2Isabelle
  imports Main "HOL-Library.AList" "HOL-Library.Sublist"
begin

section \<open>Python values and their text\<close>

text \<open>
  The module \<^verbatim>\<open>camply/notifications/pushbullet.py\<close> formats availability records and
  forwards them with \<^verbatim>\<open>requests.post\<close>. Strings are \<open>string\<close>; only ASCII letters are
  treated as cased, every other character is left alone by the case conversions.
\<close>

record datetime =
  year :: nat
  month :: nat
  day :: nat
  hour :: nat
  minute :: nat
  second :: nat
  microsecond :: nat

datatype pyvalue =
    VStr string
  | VInt int
  | VBool bool
  | VNone
  | VDatetime datetime
  | VOther string  \<comment> \<open>an object of any other class, carrying the text \<^verbatim>\<open>str()\<close> gives for it\<close>

datatype py_error =
    EnvironmentError string
  | HTTPError string
  | ConnectionError string py_error  \<comment> \<open>message, and the exception it was raised \<^verbatim>\<open>from\<close>\<close>
  | AttributeError string
  | TypeError string
  | RequestException string  \<comment> \<open>anything \<^verbatim>\<open>requests.post\<close> itself raises\<close>

definition digit_char :: "nat \<Rightarrow> char" where
  "digit_char n = ''0123456789'' ! (n mod 10)"

fun str_nat :: "nat \<Rightarrow> string" where
  "str_nat n = (if n < 10 then [digit_char n] else str_nat (n div 10) @ [digit_char (n mod 10)])"

declare str_nat.simps [simp del]

definition zfill :: "nat \<Rightarrow> string \<Rightarrow> string" where
  "zfill width s = replicate (width - length s) (CHR ''0'') @ s"

definition str_int :: "int \<Rightarrow> string" where
  "str_int i = (if i < 0 then ''-'' @ str_nat (nat (- i)) else str_nat (nat i))"

text \<open>
  \<^verbatim>\<open>datetime.strftime("%Y-%m-%d")\<close> as CPython gives it through the C library of the
  platform it runs on here (glibc): the year in decimal without padding (\<open>999-06-01\<close> for
  the year 999), month and day in two digits. From the year 1000 on this is the
  documented four-digit form.
\<close>

definition strftime_ymd :: "datetime \<Rightarrow> string" where
  "strftime_ymd d =
     str_nat (year d) @ ''-'' @ zfill 2 (str_nat (month d)) @ ''-'' @ zfill 2 (str_nat (day d))"

text \<open>\<^verbatim>\<open>str(datetime)\<close> is \<^verbatim>\<open>isoformat(sep=" ")\<close> of a naive datetime.\<close>

definition str_datetime :: "datetime \<Rightarrow> string" where
  "str_datetime d =
     zfill 4 (str_nat (year d)) @ ''-'' @ zfill 2 (str_nat (month d)) @ ''-'' @ zfill 2 (str_nat (day d))
     @ '' '' @ zfill 2 (str_nat (hour d)) @ '':'' @ zfill 2 (str_nat (minute d)) @ '':''
     @ zfill 2 (str_nat (second d))
     @ (if microsecond d \<noteq> 0 then ''.'' @ zfill 6 (str_nat (microsecond d)) else '''')"

text \<open>What an f-string writes for \<^verbatim>\<open>{value}\<close>.\<close>

fun str_py :: "pyvalue \<Rightarrow> string" where
  "str_py (VStr s) = s"
| "str_py (VInt i) = str_int i"
| "str_py (VBool b) = (if b then ''True'' else ''False'')"
| "str_py VNone = ''None''"
| "str_py (VDatetime d) = str_datetime d"
| "str_py (VOther s) = s"

text \<open>\<^verbatim>\<open>value.strftime("%Y-%m-%d")\<close>: only a datetime has the method.\<close>

fun strftime :: "pyvalue \<Rightarrow> py_error + string" where
  "strftime (VDatetime d) = Inr (strftime_ymd d)"
| "strftime v = Inl (AttributeError ''strftime'')"

subsection \<open>\<^verbatim>\<open>str.replace\<close>, \<^verbatim>\<open>str.title\<close>, \<^verbatim>\<open>str.join\<close>\<close>

definition lower_letters :: string where
  "lower_letters = ''abcdefghijklmnopqrstuvwxyz''"

definition upper_letters :: string where
  "upper_letters = ''ABCDEFGHIJKLMNOPQRSTUVWXYZ''"

definition is_lower :: "char \<Rightarrow> bool" where
  "is_lower c = (c \<in> set lower_letters)"

definition is_upper :: "char \<Rightarrow> bool" where
  "is_upper c = (c \<in> set upper_letters)"

definition is_cased :: "char \<Rightarrow> bool" where
  "is_cased c = (is_lower c \<or> is_upper c)"

definition to_upper :: "char \<Rightarrow> char" where
  "to_upper c = (case map_of (zip lower_letters upper_letters) c of Some u \<Rightarrow> u | None \<Rightarrow> c)"

definition to_lower :: "char \<Rightarrow> char" where
  "to_lower c = (case map_of (zip upper_letters lower_letters) c of Some l \<Rightarrow> l | None \<Rightarrow> c)"

text \<open>\<^verbatim>\<open>key.replace("_", " ")\<close>\<close>

definition replace_underscores :: "string \<Rightarrow> string" where
  "replace_underscores s = map (\<lambda>c. if c = CHR ''_'' then CHR '' '' else c) s"

text \<open>
  \<^verbatim>\<open>str.title()\<close>: a character that follows a cased character is lowercased, any other
  character is uppercased; the flag is the casedness of the character just read.
\<close>

fun title_from :: "bool \<Rightarrow> string \<Rightarrow> string" where
  "title_from previous_is_cased [] = []"
| "title_from previous_is_cased (c # cs) =
     (if previous_is_cased then to_lower c else to_upper c) # title_from (is_cased c) cs"

definition title_py :: "string \<Rightarrow> string" where
  "title_py s = title_from False s"

fun join_py :: "string \<Rightarrow> string list \<Rightarrow> string" where
  "join_py sep [] = []"
| "join_py sep [x] = x"
| "join_py sep (x # y # ys) = x @ sep @ join_py sep (y # ys)"

section \<open>Configuration, the header objects and the outside world\<close>

text \<open>
  \<^verbatim>\<open>PushbulletConfig\<close> (imported from \<^verbatim>\<open>camply.config\<close>) is a class whose attributes are
  read at each use, so it is part of the state. \<^verbatim>\<open>API_HEADERS\<close> is a reference to a
  dictionary object; dictionary objects live in a store addressed by their index, and
  \<^verbatim>\<open>.copy()\<close> allocates a new one. A dictionary keeps insertion order and is an
  association list; a header value or the token may be Python's \<^verbatim>\<open>None\<close>.
\<close>

type_synonym addr = nat
type_synonym header_dict = "(string \<times> string option) list"
type_synonym payload = "(string \<times> pyvalue) list"

record pushbullet_config =
  API_TOKEN :: "string option"
  API_HEADERS :: addr
  PUSHBULLET_API_ENDPOINT :: string

record request =
  url :: string
  headers :: header_dict
  json :: payload

record response =
  status_code :: nat
  reason :: string
  resp_url :: string
  resp_text :: string

datatype log_level = DEBUG | WARNING | ERROR
datatype log_arg = LogStr string | LogDict payload

record world =
  PushbulletConfig :: pushbullet_config
  heap :: "header_dict list"
  posts :: "request list"  \<comment> \<open>the calls of \<^verbatim>\<open>requests.post\<close> made so far, oldest first\<close>
  logged :: "(log_level \<times> log_arg) list"

text \<open>
  \<^verbatim>\<open>requests.post\<close> is the boundary of the module: what it answers (a response, or an
  exception of its own) is a parameter, a function of the calls made before and of the
  call's arguments.
\<close>

datatype post_outcome = Responded response | Raised py_error

type_synonym server = "request list \<Rightarrow> request \<Rightarrow> post_outcome"

definition deref :: "header_dict list \<Rightarrow> addr \<Rightarrow> header_dict" where
  "deref h a = (if a < length h then h ! a else [])"

definition dict_copy :: "addr \<Rightarrow> world \<Rightarrow> addr \<times> world" where
  "dict_copy a w = (length (heap w), w\<lparr>heap := heap w @ [deref (heap w) a]\<rparr>)"

definition dict_update :: "addr \<Rightarrow> header_dict \<Rightarrow> world \<Rightarrow> world" where
  "dict_update a kvs w =
     w\<lparr>heap := (heap w)[a := fold (\<lambda>kv. AList.update (fst kv) (snd kv)) kvs (deref (heap w) a)]\<rparr>"

definition log_py :: "log_level \<Rightarrow> log_arg \<Rightarrow> world \<Rightarrow> world" where
  "log_py lvl msg w = w\<lparr>logged := logged w @ [(lvl, msg)]\<rparr>"

definition requests_post :: "server \<Rightarrow> string \<Rightarrow> addr \<Rightarrow> payload \<Rightarrow> world \<Rightarrow> post_outcome \<times> world" where
  "requests_post post u h j w =
     (let req = \<lparr>url = u, headers = deref (heap w) h, json = j\<rparr>
      in (post (posts w) req, w\<lparr>posts := posts w @ [req]\<rparr>))"

text \<open>\<^verbatim>\<open>Response.raise_for_status\<close> of the requests library.\<close>

definition http_error_msg :: "response \<Rightarrow> string" where
  "http_error_msg r =
     (if 400 \<le> status_code r \<and> status_code r < 500
      then str_nat (status_code r) @ '' Client Error: '' @ reason r @ '' for url: '' @ resp_url r
      else if 500 \<le> status_code r \<and> status_code r < 600
      then str_nat (status_code r) @ '' Server Error: '' @ reason r @ '' for url: '' @ resp_url r
      else '''')"

definition raise_for_status :: "response \<Rightarrow> py_error + unit" where
  "raise_for_status r =
     (if http_error_msg r \<noteq> '''' then Inl (HTTPError (http_error_msg r)) else Inr ())"

subsection \<open>Keyword arguments\<close>

text \<open>\<^verbatim>\<open>kwargs.pop(key, default)\<close>\<close>

definition pop :: "payload \<Rightarrow> string \<Rightarrow> pyvalue \<Rightarrow> pyvalue \<times> payload" where
  "pop kwargs k dflt =
     (case map_of kwargs k of None \<Rightarrow> (dflt, kwargs) | Some v \<Rightarrow> (v, AList.delete k kwargs))"

text \<open>
  \<^verbatim>\<open>dict(name=..., **kwargs)\<close>: a key of \<^verbatim>\<open>kwargs\<close> that repeats a named argument is a
  \<^verbatim>\<open>TypeError\<close>.
\<close>

definition dict_kw :: "payload \<Rightarrow> payload \<Rightarrow> py_error + payload" where
  "dict_kw named kwargs =
     (if \<exists>k \<in> set (map fst kwargs). k \<in> set (map fst named)
      then Inl (TypeError ''dict() got multiple values for keyword argument'')
      else Inr (named @ kwargs))"

section \<open>The notification sender\<close>

definition warning_message :: string where
  "warning_message =
     ''Pushbullet is not configured properly. To send Pushbullet messages '' @
     ''make sure to run `camply configure` or set the '' @
     ''proper environment variable: `PUSHBULLET_API_TOKEN`.''"

text \<open>\<^verbatim>\<open>PushbulletNotifications.__init__\<close>\<close>

definition init :: "world \<Rightarrow> (py_error + unit) \<times> world" where
  "init w =
     (if list_ex id [API_TOKEN (PushbulletConfig w) = None, API_TOKEN (PushbulletConfig w) = Some '''']
      then (Inl (EnvironmentError warning_message), log_py ERROR (LogStr warning_message) w)
      else (Inr (), w))"

text \<open>
  \<^verbatim>\<open>PushbulletNotifications.send_message(message, **kwargs)\<close>. The caller's options arrive
  as a fresh dictionary; an option named \<^verbatim>\<open>message\<close> collides with the parameter and the
  call itself is a \<^verbatim>\<open>TypeError\<close>.
\<close>

definition send_message :: "server \<Rightarrow> string \<Rightarrow> payload \<Rightarrow> world \<Rightarrow> (py_error + response) \<times> world" where
  "send_message post message kwargs w =
     (if ''message'' \<in> set (map fst kwargs)
      then (Inl (TypeError ''send_message() got multiple values for argument''), w)
      else
        let (pushbullet_headers, w1) = dict_copy (API_HEADERS (PushbulletConfig w)) w;
            w2 = dict_update pushbullet_headers
                   [(''Access-Token'', API_TOKEN (PushbulletConfig w1))] w1;
            (message_type, kwargs1) = pop kwargs ''type'' (VStr ''note'');
            (message_title, kwargs2) = pop kwargs1 ''title'' (VStr ''Camply Notification'')
        in case dict_kw [(''type'', message_type), (''title'', message_title),
                         (''body'', VStr message)] kwargs2 of
             Inl e \<Rightarrow> (Inl e, w2)
           | Inr message_json \<Rightarrow>
               (let w3 = log_py DEBUG (LogDict message_json) w2;
                    (outcome, w4) = requests_post post (PUSHBULLET_API_ENDPOINT (PushbulletConfig w3))
                                      pushbullet_headers message_json w3
                in (case outcome of
                      Raised e \<Rightarrow> (Inl e, w4)
                    | Responded response \<Rightarrow>
                        (case raise_for_status response of
                           Inl he \<Rightarrow>
                             (Inl (ConnectionError (resp_text response) he),
                              log_py WARNING
                                (LogStr (''Notifications weren't able to be sent to Pushbullet. '' @
                                         ''Your configuration might be incorrect.'')) w4)
                         | Inr _ \<Rightarrow> (Inr response, w4)))))"

subsection \<open>Availability records\<close>

text \<open>
  Modelled from the spec: the class \<^verbatim>\<open>AvailableCampsite\<close> (\<^verbatim>\<open>camply.containers\<close>) and the
  names in \<^verbatim>\<open>CampsiteContainerFields\<close> (\<^verbatim>\<open>camply.config\<close>) are not part of the sources at
  hand. A record is taken as its ordered mapping of field name to value, which is what
  \<^verbatim>\<open>campsite.dict().items()\<close> iterates; reading an attribute reads the same mapping. The
  three field names are the ones the specification gives.
\<close>

type_synonym campsite = "(string \<times> pyvalue) list"

definition BOOKING_URL :: string where "BOOKING_URL = ''booking_url''"
definition BOOKING_DATE :: string where "BOOKING_DATE = ''booking_date''"
definition BOOKING_END_DATE :: string where "BOOKING_END_DATE = ''booking_end_date''"

definition getattr :: "campsite \<Rightarrow> string \<Rightarrow> py_error + pyvalue" where
  "getattr c name = (case map_of c name of None \<Rightarrow> Inl (AttributeError name) | Some v \<Rightarrow> Inr v)"

text \<open>The body of the inner loop: one field gives one line, or the exception of \<^verbatim>\<open>strftime\<close>.\<close>

definition format_field :: "string \<times> pyvalue \<Rightarrow> py_error + string" where
  "format_field kv =
     (let key = fst kv; val = snd kv in
      if key = BOOKING_URL then
        Inr (title_py (replace_underscores ''booking_link'') @ '': '' @ str_py val)
      else if key \<in> set [BOOKING_DATE, BOOKING_END_DATE] then
        (case strftime val of
           Inl e \<Rightarrow> Inl e
         | Inr s \<Rightarrow> Inr (title_py (replace_underscores key) @ '': '' @ s))
      else Inr (title_py (replace_underscores key) @ '': '' @ str_py val))"

text \<open>The inner loop, with the list (\<^verbatim>\<open>fields\<close> in the source) it appends to.\<close>

fun format_fields :: "(string \<times> pyvalue) list \<Rightarrow> string list \<Rightarrow> py_error + string list" where
  "format_fields [] lines = Inr lines"
| "format_fields (kv # rest) lines =
     (case format_field kv of
        Inl e \<Rightarrow> Inl e
      | Inr line \<Rightarrow> format_fields rest (lines @ [line]))"

definition compose_title :: "campsite \<Rightarrow> py_error + string" where
  "compose_title c =
     (case getattr c ''recreation_area'' of
        Inl e \<Rightarrow> Inl e
      | Inr ra \<Rightarrow>
          (case getattr c ''facility_name'' of
             Inl e \<Rightarrow> Inl e
           | Inr fn \<Rightarrow>
               (case getattr c ''booking_date'' of
                  Inl e \<Rightarrow> Inl e
                | Inr bd \<Rightarrow>
                    (case strftime bd of
                       Inl e \<Rightarrow> Inl e
                     | Inr s \<Rightarrow> Inr (str_py ra @ '' | '' @ str_py fn @ '' | '' @ s)))))"

text \<open>
  \<^verbatim>\<open>PushbulletNotifications.send_campsites(campsites, **kwargs)\<close>. First the loop over the
  records, whose body never reads the options; then the call itself: an option named
  \<^verbatim>\<open>campsites\<close> collides with the parameter and the call is a \<^verbatim>\<open>TypeError\<close> before the
  body runs.
\<close>

fun send_campsites_loop :: "server \<Rightarrow> campsite list \<Rightarrow> world \<Rightarrow> (py_error + unit) \<times> world" where
  "send_campsites_loop post [] w = (Inr (), w)"
| "send_campsites_loop post (campsite # rest) w =
     (case format_fields campsite [] of
        Inl e \<Rightarrow> (Inl e, w)
      | Inr lines \<Rightarrow>
          let composed_message = join_py [CHR 0x0A] lines in
          (case compose_title campsite of
             Inl e \<Rightarrow> (Inl e, w)
           | Inr message_title \<Rightarrow>
               (case send_message post composed_message
                       [(''title'', VStr message_title), (''type'', VStr ''note'')] w of
                  (Inl e, w') \<Rightarrow> (Inl e, w')
                | (Inr _, w') \<Rightarrow> send_campsites_loop post rest w')))"

definition send_campsites :: "server \<Rightarrow> campsite list \<Rightarrow> payload \<Rightarrow> world \<Rightarrow> (py_error + unit) \<times> world" where
  "send_campsites post campsites kwargs w =
     (if ''campsites'' \<in> set (map fst kwargs)
      then (Inl (TypeError ''send_campsites() got multiple values for argument''), w)
      else send_campsites_loop post campsites w)"

section \<open>The specification's wording, as definitions to compare with\<close>

text \<open>
  The outgoing call as the specification describes it: a POST to the fixed endpoint,
  headers the base headers with the entry \<open>Access-Token\<close> added, and the JSON body
  \<open>{type, title, body, ...extra}\<close>.
\<close>

definition spec_request :: "world \<Rightarrow> pyvalue \<Rightarrow> pyvalue \<Rightarrow> string \<Rightarrow> payload \<Rightarrow> request" where
  "spec_request w ty ti body_text extra =
     \<lparr>url = PUSHBULLET_API_ENDPOINT (PushbulletConfig w),
      headers = AList.update ''Access-Token'' (API_TOKEN (PushbulletConfig w))
                  (deref (heap w) (API_HEADERS (PushbulletConfig w))),
      json = [(''type'', ty), (''title'', ti), (''body'', VStr body_text)] @ extra\<rparr>"

text \<open>A success status is a 2xx status (the specification's "non-2xx" for a failure).\<close>

definition success_status :: "nat \<Rightarrow> bool" where
  "success_status s = (200 \<le> s \<and> s < 300)"

text \<open>The statuses for which \<^verbatim>\<open>raise_for_status\<close> raises.\<close>

definition error_status :: "nat \<Rightarrow> bool" where
  "error_status s = (400 \<le> s \<and> s < 600)"

text \<open>The literal pattern \<open>YYYY-MM-DD\<close>, digit by digit.\<close>

definition spec_ymd :: "datetime \<Rightarrow> string" where
  "spec_ymd d =
     [digit_char (year d div 1000), digit_char (year d div 100), digit_char (year d div 10),
      digit_char (year d), CHR ''-'',
      digit_char (month d div 10), digit_char (month d), CHR ''-'',
      digit_char (day d div 10), digit_char (day d)]"

text \<open>Underscores become spaces and each word is capitalised.\<close>

fun split_underscore :: "string \<Rightarrow> string list" where
  "split_underscore [] = [[]]"
| "split_underscore (c # cs) =
     (if c = CHR ''_'' then [] # split_underscore cs
      else (case split_underscore cs of
              [] \<Rightarrow> [[c]]
            | word # words \<Rightarrow> (c # word) # words))"

definition capitalize :: "string \<Rightarrow> string" where
  "capitalize word = (case word of [] \<Rightarrow> [] | c # cs \<Rightarrow> to_upper c # cs)"

definition spec_label :: "string \<Rightarrow> string" where
  "spec_label key =
     (if key = ''booking_url'' then ''Booking Link''
      else join_py '' '' (map capitalize (split_underscore key)))"

definition spec_value :: "string \<Rightarrow> pyvalue \<Rightarrow> string" where
  "spec_value key v =
     (if key = ''booking_date'' \<or> key = ''booking_end_date''
      then (case v of VDatetime d \<Rightarrow> spec_ymd d | _ \<Rightarrow> str_py v)
      else str_py v)"

definition spec_line :: "string \<times> pyvalue \<Rightarrow> string" where
  "spec_line kv = spec_label (fst kv) @ '': '' @ spec_value (fst kv) (snd kv)"

definition spec_body :: "campsite \<Rightarrow> string" where
  "spec_body c = join_py [CHR 0x0A] (map spec_line c)"

definition field_of :: "campsite \<Rightarrow> string \<Rightarrow> pyvalue" where
  "field_of c name = (case map_of c name of Some v \<Rightarrow> v | None \<Rightarrow> VNone)"

definition spec_title :: "campsite \<Rightarrow> string" where
  "spec_title c =
     str_py (field_of c ''recreation_area'') @ '' | '' @ str_py (field_of c ''facility_name'')
     @ '' | '' @ spec_value ''booking_date'' (field_of c ''booking_date'')"

definition campsite_request :: "world \<Rightarrow> campsite \<Rightarrow> request" where
  "campsite_request w c = spec_request w (VStr ''note'') (VStr (spec_title c)) (spec_body c) []"

subsection \<open>Well-formed inputs\<close>

text \<open>
  A datetime within the ranges the class \<^verbatim>\<open>datetime\<close> admits; a booking date, which is
  such a datetime of the year 1000 or later (where \<^verbatim>\<open>%Y\<close> writes four digits); a field
  name in snake case (lowercase letters and underscores); a record that is a dictionary
  (no key twice) with the five fields the inbound contract asks for, the two dates being
  booking dates.
\<close>

definition valid_datetime :: "datetime \<Rightarrow> bool" where
  "valid_datetime d =
     (1 \<le> year d \<and> year d \<le> 9999 \<and> 1 \<le> month d \<and> month d \<le> 12 \<and> 1 \<le> day d \<and> day d \<le> 31
      \<and> hour d < 24 \<and> minute d < 60 \<and> second d < 60 \<and> microsecond d < 1000000)"

definition snake_case :: "string \<Rightarrow> bool" where
  "snake_case key = list_all (\<lambda>c. is_lower c \<or> c = CHR ''_'') key"

definition is_valid_date :: "pyvalue option \<Rightarrow> bool" where
  "is_valid_date v =
     (case v of Some (VDatetime d) \<Rightarrow> valid_datetime d \<and> 1000 \<le> year d | _ \<Rightarrow> False)"

definition wf_campsite :: "campsite \<Rightarrow> bool" where
  "wf_campsite c =
     (distinct (map fst c) \<and> list_all (\<lambda>kv. snake_case (fst kv)) c
      \<and> map_of c ''recreation_area'' \<noteq> None \<and> map_of c ''facility_name'' \<noteq> None
      \<and> map_of c ''booking_url'' \<noteq> None
      \<and> is_valid_date (map_of c ''booking_date'') \<and> is_valid_date (map_of c ''booking_end_date''))"

text \<open>The reference \<^verbatim>\<open>API_HEADERS\<close> points at an object of the store.\<close>

definition wf_world :: "world \<Rightarrow> bool" where
  "wf_world w = (API_HEADERS (PushbulletConfig w) < length (heap w))"


text \<open>
  The call \<^verbatim>\<open>send_message\<close> makes for a text and options, in the specification's shape:
  the options \<open>type\<close> and \<open>title\<close> replace the defaults, the other options are the
  extra entries. And the world after that call of \<^verbatim>\<open>requests.post\<close>: one more header
  object, one more call on record, one more line in the log.
\<close>

definition message_request :: "world \<Rightarrow> string \<Rightarrow> payload \<Rightarrow> request" where
  "message_request w message kwargs =
     spec_request w (fst (pop kwargs ''type'' (VStr ''note'')))
       (fst (pop kwargs ''title'' (VStr ''Camply Notification''))) message
       (AList.delete ''title'' (AList.delete ''type'' kwargs))"

definition posted :: "request \<Rightarrow> world \<Rightarrow> world" where
  "posted q w =
     w\<lparr>heap := heap w @ [headers q], posts := posts w @ [q],
       logged := logged w @ [(DEBUG, LogDict (json q))]\<rparr>"

subsection \<open>Example data\<close>

definition example_world :: world where
  "example_world =
     \<lparr>PushbulletConfig =
        \<lparr>API_TOKEN = Some ''o.abc'', API_HEADERS = 0,
         PUSHBULLET_API_ENDPOINT = ''https://api.pushbullet.com/v2/pushes''\<rparr>,
      heap = [[(''Content-Type'', Some ''application/json'')]],
      posts = [], logged = []\<rparr>"

definition with_token :: "string option \<Rightarrow> world \<Rightarrow> world" where
  "with_token t w = w\<lparr>PushbulletConfig := (PushbulletConfig w)\<lparr>API_TOKEN := t\<rparr>\<rparr>"

definition respond_with :: "nat \<Rightarrow> string \<Rightarrow> response" where
  "respond_with code body_text =
     \<lparr>status_code = code, reason = ''Status'', resp_url = ''https://api.pushbullet.com/v2/pushes'',
      resp_text = body_text\<rparr>"

definition always_respond :: "response \<Rightarrow> server" where
  "always_respond r h q = Responded r"

text \<open>A service that accepts the first call and answers 401 from the second on.\<close>

definition fail_after_first :: server where
  "fail_after_first h q =
     (if h = [] then Responded (respond_with 200 ''{}'')
      else Responded (respond_with 401 ''Invalid token''))"

definition checkin_date :: pyvalue where
  "checkin_date =
     VDatetime \<lparr>year = 2023, month = 6, day = 1, hour = 0, minute = 0, second = 0, microsecond = 0\<rparr>"

definition checkout_date :: pyvalue where
  "checkout_date =
     VDatetime \<lparr>year = 2023, month = 6, day = 2, hour = 0, minute = 0, second = 0, microsecond = 0\<rparr>"

definition upper_pines :: campsite where
  "upper_pines =
     [(''facility_name'', VStr ''Upper Pines''), (''recreation_area'', VStr ''Yosemite''),
      (''booking_date'', checkin_date), (''booking_end_date'', checkout_date),
      (''booking_url'', VStr ''http://x'')]"

section \<open>Basic facts\<close>

lemma posts_log_py [simp]: "posts (log_py lvl msg w) = posts w"
  by (simp add: log_py_def)

lemma heap_log_py [simp]: "heap (log_py lvl msg w) = heap w"
  by (simp add: log_py_def)

lemma config_log_py [simp]: "PushbulletConfig (log_py lvl msg w) = PushbulletConfig w"
  by (simp add: log_py_def)

lemma sublist_camply_configure: "sublist ''camply configure'' warning_message"
proof -
  have "warning_message =
          ''Pushbullet is not configured properly. To send Pushbullet messages make sure to run `''
          @ ''camply configure'' @ ''` or set the proper environment variable: `PUSHBULLET_API_TOKEN`.''"
    by (simp add: warning_message_def)
  then show ?thesis
    by (metis sublist_appendI)
qed

lemma sublist_env_variable: "sublist ''PUSHBULLET_API_TOKEN'' warning_message"
proof -
  have "warning_message =
          ''Pushbullet is not configured properly. To send Pushbullet messages make sure to run `camply configure` or set the proper environment variable: `''
          @ ''PUSHBULLET_API_TOKEN'' @ ''`.''"
    by (simp add: warning_message_def)
  then show ?thesis
    by (metis sublist_appendI)
qed

section \<open>Construction\<close>

text \<open>
  C3. Constructing the sender fails exactly when the access token is absent or the empty
  string; the failure is the construction error (\<^verbatim>\<open>EnvironmentError\<close> in the source) whose
  message names the setup command \<^verbatim>\<open>camply configure\<close> and the environment variable
  \<^verbatim>\<open>PUSHBULLET_API_TOKEN\<close>; and construction leaves the record of network calls as it
  was, whether it fails or not.
\<close>

theorem init_fails_iff_token_missing:
  "((\<exists>e. fst (init w) = Inl e)
      \<longleftrightarrow> (API_TOKEN (PushbulletConfig w) = None \<or> API_TOKEN (PushbulletConfig w) = Some ''''))
   \<and> ((\<exists>e. fst (init w) = Inl e) \<longleftrightarrow> fst (init w) = Inl (EnvironmentError warning_message))
   \<and> sublist ''camply configure'' warning_message
   \<and> sublist ''PUSHBULLET_API_TOKEN'' warning_message
   \<and> posts (snd (init w)) = posts w"
  by (simp add: init_def sublist_camply_configure sublist_env_variable)

theorem init_fails_iff_token_missing_witness:
  "fst (init (with_token None example_world)) = Inl (EnvironmentError warning_message)
   \<and> fst (init (with_token (Some '''') example_world)) = Inl (EnvironmentError warning_message)
   \<and> fst (init example_world) = Inr ()
   \<and> posts (snd (init (with_token None example_world))) = []"
  using init_fails_iff_token_missing [of "with_token None example_world"]
        init_fails_iff_token_missing [of "with_token (Some '''') example_world"]
        init_fails_iff_token_missing [of example_world]
  by (simp add: with_token_def example_world_def init_def)

text \<open>
  C10. The credential check rejects nothing but the absent token and the empty string:
  with any other token construction returns normally and changes nothing, and a token of
  blanks only is such a token.
\<close>

theorem init_accepts_every_other_token:
  "API_TOKEN (PushbulletConfig w) \<noteq> None \<Longrightarrow> API_TOKEN (PushbulletConfig w) \<noteq> Some ''''
     \<Longrightarrow> init w = (Inr (), w)"
  by (simp add: init_def)

theorem init_accepts_every_other_token_witness:
  "init (with_token (Some ''   '') example_world) = (Inr (), with_token (Some ''   '') example_world)"
proof -
  have a: "API_TOKEN (PushbulletConfig (with_token (Some ''   '') example_world)) \<noteq> None"
    by (simp add: with_token_def)
  have b: "API_TOKEN (PushbulletConfig (with_token (Some ''   '') example_world)) \<noteq> Some ''''"
    by (simp add: with_token_def)
  show ?thesis
    by (rule init_accepts_every_other_token [OF a b])
qed

section \<open>Facts about the pieces of \<^verbatim>\<open>send_message\<close>\<close>

lemma fst_pop: "fst (pop kw k d) = (case map_of kw k of None \<Rightarrow> d | Some v \<Rightarrow> v)"
  by (simp add: pop_def split: option.splits)

lemma snd_pop: "snd (pop kw k d) = AList.delete k kw"
  by (auto simp: pop_def map_of_eq_None_iff split: option.splits)

lemma fst_pop_delete: "k \<noteq> k' \<Longrightarrow> fst (pop (AList.delete k' kw) k d) = fst (pop kw k d)"
  by (simp add: fst_pop delete_conv')

lemma http_error_msg_empty: "(http_error_msg r = '''') \<longleftrightarrow> \<not> error_status (status_code r)"
  by (simp add: http_error_msg_def error_status_def) linarith

lemma raise_for_status_eq:
  "raise_for_status r =
     (if error_status (status_code r) then Inl (HTTPError (http_error_msg r)) else Inr ())"
  by (simp add: raise_for_status_def http_error_msg_empty)

lemma keys_delete: "set (map fst (AList.delete k kw)) = set (map fst kw) - {k}"
  by (simp add: delete_keys)

lemma dict_kw_named:
  "dict_kw [(''type'', a), (''title'', b), (''body'', c)]
     (AList.delete ''title'' (AList.delete ''type'' kw)) =
     (if ''body'' \<in> set (map fst kw)
      then Inl (TypeError ''dict() got multiple values for keyword argument'')
      else Inr ([(''type'', a), (''title'', b), (''body'', c)]
                @ AList.delete ''title'' (AList.delete ''type'' kw)))"
  unfolding dict_kw_def keys_delete by auto

lemma deref_alloc [simp]: "deref (h @ [d]) (length h) = d"
  by (simp add: deref_def)

lemma deref_old [simp]: "a < length h \<Longrightarrow> deref (h @ hs) a = deref h a"
  by (simp add: deref_def nth_append)

lemma copy_update:
  "dict_update (length (heap w)) [(k, v)] (w\<lparr>heap := heap w @ [d]\<rparr>)
     = w\<lparr>heap := heap w @ [AList.update k v d]\<rparr>"
  by (simp add: dict_update_def)

text \<open>
  The whole of \<^verbatim>\<open>send_message\<close> when the options name neither \<open>message\<close> nor \<open>body\<close>:
  one call of \<^verbatim>\<open>requests.post\<close>, and the result follows the answer.
\<close>

lemma send_message_eq:
  assumes "''message'' \<notin> set (map fst kwargs)" and "''body'' \<notin> set (map fst kwargs)"
  shows "send_message post message kwargs w =
     (case post (posts w) (message_request w message kwargs) of
        Raised e \<Rightarrow> (Inl e, posted (message_request w message kwargs) w)
      | Responded r \<Rightarrow>
          if error_status (status_code r)
          then (Inl (ConnectionError (resp_text r) (HTTPError (http_error_msg r))),
                log_py WARNING
                  (LogStr (''Notifications weren't able to be sent to Pushbullet. '' @
                           ''Your configuration might be incorrect.''))
                  (posted (message_request w message kwargs) w))
          else (Inr r, posted (message_request w message kwargs) w))"
  using assms
  by (simp add: send_message_def dict_copy_def copy_update Let_def split_beta snd_pop fst_pop_delete
        dict_kw_named requests_post_def message_request_def spec_request_def posted_def log_py_def
        raise_for_status_eq
      split: post_outcome.splits)

lemma send_message_body:
  assumes "''message'' \<notin> set (map fst kwargs)" and "''body'' \<in> set (map fst kwargs)"
  shows "send_message post message kwargs w =
           (Inl (TypeError ''dict() got multiple values for keyword argument''),
            w\<lparr>heap := heap w @ [headers (message_request w message kwargs)]\<rparr>)"
  using assms
  by (simp add: send_message_def dict_copy_def copy_update Let_def split_beta snd_pop dict_kw_named
        message_request_def spec_request_def)

lemma send_message_message:
  assumes "''message'' \<in> set (map fst kwargs)"
  shows "send_message post message kwargs w =
           (Inl (TypeError ''send_message() got multiple values for argument''), w)"
  using assms by (simp add: send_message_def)

lemma posts_posted [simp]: "posts (posted q w) = posts w @ [q]"
  by (simp add: posted_def)

lemma heap_posted [simp]: "heap (posted q w) = heap w @ [headers q]"
  by (simp add: posted_def)

lemma config_posted [simp]: "PushbulletConfig (posted q w) = PushbulletConfig w"
  by (simp add: posted_def)

lemma delete_both:
  "AList.delete ''title'' (AList.delete ''type'' kw) = [kv \<leftarrow> kw. fst kv \<noteq> ''type'' \<and> fst kv \<noteq> ''title'']"
  by (induction kw) (auto simp: AList.delete_eq)

lemma send_message_frame:
  "PushbulletConfig (snd (send_message post message kwargs w)) = PushbulletConfig w
   \<and> (\<exists>hs. heap (snd (send_message post message kwargs w)) = heap w @ hs)
   \<and> (\<exists>qs. posts (snd (send_message post message kwargs w)) = posts w @ qs \<and> length qs \<le> 1)"
proof (cases "''message'' \<in> set (map fst kwargs)")
  case True
  then show ?thesis by (simp add: send_message_message)
next
  case no_message: False
  show ?thesis
  proof (cases "''body'' \<in> set (map fst kwargs)")
    case True
    with no_message show ?thesis by (simp add: send_message_body)
  next
    case False
    with no_message show ?thesis
      by (simp add: send_message_eq split: post_outcome.splits)
  qed
qed


lemma spec_request_extend:
  "wf_world w \<Longrightarrow> PushbulletConfig w' = PushbulletConfig w \<Longrightarrow> heap w' = heap w @ hs
     \<Longrightarrow> spec_request w' ty ti t ex = spec_request w ty ti t ex"
  by (simp add: wf_world_def spec_request_def)

section \<open>The raw message operation\<close>

text \<open>
  C4. For every text, \<^verbatim>\<open>send_message\<close> with no options makes exactly one call of
  \<^verbatim>\<open>requests.post\<close>: to the configured endpoint, with the JSON body
  \<open>{"type": "note", "title": "Camply Notification", "body": text}\<close> and with headers that,
  as a mapping, are the base headers with \<open>Access-Token\<close> set to the token. An option
  \<open>type\<close> or \<open>title\<close> (either, or both in either order) takes the place of the default.
\<close>

theorem send_message_default_request:
  "posts (snd (send_message post text [] w)) =
     posts w @
     [\<lparr>url = PUSHBULLET_API_ENDPOINT (PushbulletConfig w),
       headers = AList.update ''Access-Token'' (API_TOKEN (PushbulletConfig w))
                   (deref (heap w) (API_HEADERS (PushbulletConfig w))),
       json = [(''type'', VStr ''note''), (''title'', VStr ''Camply Notification''),
               (''body'', VStr text)]\<rparr>]
   \<and> map_of (headers (last (posts (snd (send_message post text [] w))))) =
       (map_of (deref (heap w) (API_HEADERS (PushbulletConfig w))))
         (''Access-Token'' \<mapsto> API_TOKEN (PushbulletConfig w))
   \<and> posts (snd (send_message post text [(''type'', ty)] w)) =
       posts w @ [spec_request w ty (VStr ''Camply Notification'') text []]
   \<and> posts (snd (send_message post text [(''title'', ti)] w)) =
       posts w @ [spec_request w (VStr ''note'') ti text []]
   \<and> posts (snd (send_message post text [(''type'', ty), (''title'', ti)] w)) =
       posts w @ [spec_request w ty ti text []]
   \<and> posts (snd (send_message post text [(''title'', ti), (''type'', ty)] w)) =
       posts w @ [spec_request w ty ti text []]"
proof -
  have posted_any: "posts (snd (send_message post text kw w)) = posts w @ [message_request w text kw]"
    if "''message'' \<notin> set (map fst kw)" "''body'' \<notin> set (map fst kw)" for kw
    using that by (simp add: send_message_eq split: post_outcome.splits)
  have r0: "message_request w text [] = spec_request w (VStr ''note'') (VStr ''Camply Notification'') text []"
    by (simp add: message_request_def pop_def)
  have r1: "message_request w text [(''type'', ty)] = spec_request w ty (VStr ''Camply Notification'') text []"
    by (simp add: message_request_def pop_def)
  have r2: "message_request w text [(''title'', ti)] = spec_request w (VStr ''note'') ti text []"
    by (simp add: message_request_def pop_def)
  have r3: "message_request w text [(''type'', ty), (''title'', ti)] = spec_request w ty ti text []"
    by (simp add: message_request_def pop_def)
  have r4: "message_request w text [(''title'', ti), (''type'', ty)] = spec_request w ty ti text []"
    by (simp add: message_request_def pop_def)
  show ?thesis
    by (simp add: posted_any r0 r1 r2 r3 r4 spec_request_def update_conv')
qed

theorem send_message_default_request_witness:
  "posts (snd (send_message (always_respond (respond_with 200 ''{}'')) ''hello'' [] example_world)) =
     [\<lparr>url = ''https://api.pushbullet.com/v2/pushes'',
       headers = [(''Content-Type'', Some ''application/json''), (''Access-Token'', Some ''o.abc'')],
       json = [(''type'', VStr ''note''), (''title'', VStr ''Camply Notification''),
               (''body'', VStr ''hello'')]\<rparr>]"
  using send_message_default_request
          [of "always_respond (respond_with 200 ''{}'')" "''hello''" example_world]
  by (simp add: example_world_def deref_def)

text \<open>
  C5, as the code has it. An option named \<open>body\<close> is not merged: it repeats the keyword
  \<open>body\<close> of the \<^verbatim>\<open>dict(...)\<close> call, which is a \<^verbatim>\<open>TypeError\<close>, and nothing is sent.
\<close>

theorem extra_option_body_counterexample:
  "fst (send_message (always_respond (respond_with 200 ''{}'')) ''hello''
          [(''body'', VStr ''other'')] example_world)
     = Inl (TypeError ''dict() got multiple values for keyword argument'')
   \<and> posts (snd (send_message (always_respond (respond_with 200 ''{}'')) ''hello''
                   [(''body'', VStr ''other'')] example_world)) = []"
  by (simp add: send_message_body example_world_def)

text \<open>
  C5, amended. For options that name neither \<open>body\<close> nor \<open>message\<close> (the parameter's own
  name), exactly one call is made and its JSON body is \<open>type\<close>, \<open>title\<close>, \<open>body\<close>
  followed by every option other than \<open>type\<close> and \<open>title\<close>, in the caller's order: each
  such key/value pair is in the payload.
\<close>

theorem extra_options_merged:
  assumes "''message'' \<notin> set (map fst kwargs)" and "''body'' \<notin> set (map fst kwargs)"
  shows "posts (snd (send_message post text kwargs w)) = posts w @ [message_request w text kwargs]
         \<and> json (message_request w text kwargs) =
             [(''type'', fst (pop kwargs ''type'' (VStr ''note''))),
              (''title'', fst (pop kwargs ''title'' (VStr ''Camply Notification''))),
              (''body'', VStr text)]
             @ [kv \<leftarrow> kwargs. fst kv \<noteq> ''type'' \<and> fst kv \<noteq> ''title'']
         \<and> (\<forall>kv \<in> set kwargs. fst kv \<noteq> ''type'' \<and> fst kv \<noteq> ''title''
               \<longrightarrow> kv \<in> set (json (last (posts (snd (send_message post text kwargs w))))))"
proof -
  have sent: "posts (snd (send_message post text kwargs w)) = posts w @ [message_request w text kwargs]"
    using assms by (simp add: send_message_eq split: post_outcome.splits)
  have body: "json (message_request w text kwargs) =
             [(''type'', fst (pop kwargs ''type'' (VStr ''note''))),
              (''title'', fst (pop kwargs ''title'' (VStr ''Camply Notification''))),
              (''body'', VStr text)]
             @ [kv \<leftarrow> kwargs. fst kv \<noteq> ''type'' \<and> fst kv \<noteq> ''title'']"
    by (simp add: message_request_def spec_request_def delete_both)
  show ?thesis
    unfolding sent by (simp add: body)
qed

theorem extra_options_merged_witness:
  "json (last (posts (snd (send_message (always_respond (respond_with 200 ''{}'')) ''hello''
      [(''url'', VStr ''http://x''), (''type'', VStr ''link'')] example_world)))) =
     [(''type'', VStr ''link''), (''title'', VStr ''Camply Notification''), (''body'', VStr ''hello''),
      (''url'', VStr ''http://x'')]"
proof -
  have a: "''message'' \<notin> set (map fst [(''url'', VStr ''http://x''), (''type'', VStr ''link'')])"
    by simp
  have b: "''body'' \<notin> set (map fst [(''url'', VStr ''http://x''), (''type'', VStr ''link'')])"
    by simp
  show ?thesis
    using extra_options_merged [OF a b, of "always_respond (respond_with 200 ''{}'')" "''hello''" example_world]
    by (simp add: pop_def)
qed

text \<open>
  C2, as the code has it. A status that is not a success status does not always fail the
  call: \<^verbatim>\<open>raise_for_status\<close> raises for 400 to 599 only, and a response 304 is returned.
\<close>

theorem non_success_status_returned_counterexample:
  "\<not> success_status (status_code (respond_with 304 ''''))
   \<and> fst (send_message (always_respond (respond_with 304 '''')) ''hello'' [] example_world)
       = Inr (respond_with 304 '''')"
  by (simp add: send_message_eq always_respond_def respond_with_def success_status_def
        error_status_def)

text \<open>
  C2, amended. For a call that reaches the service (options naming neither \<open>message\<close> nor
  \<open>body\<close>) and is answered by a response: with a status from 400 to 599 the call fails
  with the delivery error (\<^verbatim>\<open>ConnectionError\<close> in the source) whose message is the
  response's body text and whose cause is the HTTP-status error, and the error is the
  result of the call; with any other status, every 2xx status among them, the call
  returns that response unchanged.
\<close>

theorem send_message_result_follows_status:
  assumes "''message'' \<notin> set (map fst kwargs)" and "''body'' \<notin> set (map fst kwargs)"
    and "post (posts w) (message_request w message kwargs) = Responded r"
  shows "(error_status (status_code r) \<longrightarrow>
            fst (send_message post message kwargs w)
              = Inl (ConnectionError (resp_text r) (HTTPError (http_error_msg r))))
         \<and> (\<not> error_status (status_code r) \<longrightarrow> fst (send_message post message kwargs w) = Inr r)
         \<and> (success_status (status_code r) \<longrightarrow> fst (send_message post message kwargs w) = Inr r)"
  using assms by (simp add: send_message_eq success_status_def error_status_def)

theorem send_message_result_follows_status_witness:
  "fst (send_message (always_respond (respond_with 401 ''Invalid token'')) ''hello'' [] example_world)
     = Inl (ConnectionError ''Invalid token''
              (HTTPError (http_error_msg (respond_with 401 ''Invalid token''))))
   \<and> fst (send_message (always_respond (respond_with 200 ''{}'')) ''hello'' [] example_world)
       = Inr (respond_with 200 ''{}'')"
proof -
  have a: "''message'' \<notin> set (map fst ([] :: payload))" by simp
  have b: "''body'' \<notin> set (map fst ([] :: payload))" by simp
  have c: "always_respond (respond_with 401 ''Invalid token'') (posts example_world)
             (message_request example_world ''hello'' []) = Responded (respond_with 401 ''Invalid token'')"
    by (simp add: always_respond_def)
  have d: "always_respond (respond_with 200 ''{}'') (posts example_world)
             (message_request example_world ''hello'' []) = Responded (respond_with 200 ''{}'')"
    by (simp add: always_respond_def)
  show ?thesis
    using send_message_result_follows_status
            [where post = "always_respond (respond_with 401 ''Invalid token'')", OF a b c]
          send_message_result_follows_status
            [where post = "always_respond (respond_with 200 ''{}'')", OF a b d]
    by (simp add: error_status_def respond_with_def)
qed

text \<open>
  C8. A call of \<^verbatim>\<open>send_message\<close> never changes the shared configuration: whatever the
  text, the options and the answer, the token, the endpoint and the reference to the base
  headers are as before, the base header object has the content it had (the entry
  \<open>Access-Token\<close> goes into a fresh copy), no object that existed is touched, and a later
  call builds exactly the request it would have built before.
\<close>

theorem send_message_keeps_configuration:
  assumes "wf_world w"
  shows "PushbulletConfig (snd (send_message post message kwargs w)) = PushbulletConfig w
         \<and> deref (heap (snd (send_message post message kwargs w))) (API_HEADERS (PushbulletConfig w))
             = deref (heap w) (API_HEADERS (PushbulletConfig w))
         \<and> take (length (heap w)) (heap (snd (send_message post message kwargs w))) = heap w
         \<and> wf_world (snd (send_message post message kwargs w))
         \<and> (\<forall>m kw. message_request (snd (send_message post message kwargs w)) m kw
                     = message_request w m kw)"
proof -
  let ?w' = "snd (send_message post message kwargs w)"
  obtain hs where cfg: "PushbulletConfig ?w' = PushbulletConfig w" and hp: "heap ?w' = heap w @ hs"
    using send_message_frame [of post message kwargs w] by blast
  have a: "API_HEADERS (PushbulletConfig w) < length (heap w)"
    using assms by (simp add: wf_world_def)
  have "message_request ?w' m kw = message_request w m kw" for m kw
    unfolding message_request_def by (rule spec_request_extend [OF assms cfg hp])
  then show ?thesis
    using a by (simp add: cfg hp wf_world_def)
qed

theorem send_message_keeps_configuration_witness:
  "PushbulletConfig (snd (send_message (always_respond (respond_with 200 ''{}'')) ''hello'' [] example_world))
     = PushbulletConfig example_world
   \<and> deref (heap (snd (send_message (always_respond (respond_with 200 ''{}'')) ''hello'' [] example_world))) 0
       = [(''Content-Type'', Some ''application/json'')]"
proof -
  have a: "wf_world example_world"
    by (simp add: wf_world_def example_world_def)
  show ?thesis
    using send_message_keeps_configuration [OF a, of "always_respond (respond_with 200 ''{}'')" "''hello''" "[]"]
    by (simp add: example_world_def deref_def)
qed

section \<open>Dates and labels: the code against the specification's wording\<close>

lemma digit_char_mod [simp]: "digit_char (n mod 10) = digit_char n"
  by (simp add: digit_char_def)

lemma digit_char_0 [simp]: "digit_char 0 = CHR ''0''"
  by (simp add: digit_char_def)

lemma str_nat_lt10: "n < 10 \<Longrightarrow> str_nat n = [digit_char n]"
  by (simp add: str_nat.simps)

lemma str_nat_ge10: "10 \<le> n \<Longrightarrow> str_nat n = str_nat (n div 10) @ [digit_char n]"
  by (subst str_nat.simps) simp

lemma str_nat_lt100: "10 \<le> n \<Longrightarrow> n < 100 \<Longrightarrow> str_nat n = [digit_char (n div 10), digit_char n]"
  by (simp add: str_nat_ge10 str_nat_lt10)

lemma str_nat_lt1000:
  "100 \<le> n \<Longrightarrow> n < 1000 \<Longrightarrow> str_nat n = [digit_char (n div 100), digit_char (n div 10), digit_char n]"
  by (simp add: str_nat_ge10 [of n] str_nat_lt100 div_mult2_eq [symmetric])

lemma str_nat_lt10000:
  "1000 \<le> n \<Longrightarrow> n < 10000 \<Longrightarrow>
     str_nat n = [digit_char (n div 1000), digit_char (n div 100), digit_char (n div 10), digit_char n]"
  by (simp add: str_nat_ge10 [of n] str_nat_lt1000 div_mult2_eq [symmetric])

lemma zfill_2: "n < 100 \<Longrightarrow> zfill 2 (str_nat n) = [digit_char (n div 10), digit_char n]"
  by (cases "n < 10") (simp_all add: zfill_def str_nat_lt10 str_nat_lt100)

lemma strftime_ymd_spec:
  "valid_datetime d \<Longrightarrow> 1000 \<le> year d \<Longrightarrow> strftime_ymd d = spec_ymd d"
  by (simp add: valid_datetime_def strftime_ymd_def spec_ymd_def zfill_2 str_nat_lt10000)

lemma lower_cases:
  assumes "is_lower c"
  shows "c \<in> {CHR ''a'', CHR ''b'', CHR ''c'', CHR ''d'', CHR ''e'', CHR ''f'', CHR ''g'', CHR ''h'',
              CHR ''i'', CHR ''j'', CHR ''k'', CHR ''l'', CHR ''m'', CHR ''n'', CHR ''o'', CHR ''p'',
              CHR ''q'', CHR ''r'', CHR ''s'', CHR ''t'', CHR ''u'', CHR ''v'', CHR ''w'', CHR ''x'',
              CHR ''y'', CHR ''z''}"
  using assms by (simp add: is_lower_def lower_letters_def)

lemma lower_not_upper: "is_lower c \<Longrightarrow> c \<notin> set upper_letters"
  unfolding upper_letters_def by (drule lower_cases) auto

lemma lower_letter:
  assumes "is_lower c"
  shows "to_lower c = c" and "is_cased c" and "c \<noteq> CHR ''_''"
proof -
  have "map_of (zip upper_letters lower_letters) c = None"
    using lower_not_upper [OF assms]
    by (simp add: map_of_eq_None_iff upper_letters_def lower_letters_def)
  then show "to_lower c = c" by (simp add: to_lower_def)
  show "is_cased c" using assms by (simp add: is_cased_def)
  show "c \<noteq> CHR ''_''" using lower_cases [OF assms] by auto
qed


lemma capitalize_simps: "capitalize [] = []" "capitalize (c # cs) = to_upper c # cs"
  by (simp_all add: capitalize_def)

lemma join_py_Cons_Cons: "join_py sep ((c # x) # ys) = c # join_py sep (x # ys)"
  by (cases ys) simp_all

lemma split_underscore_nonempty: "split_underscore s \<noteq> []"
  by (induction s) (auto split: list.splits)

lemma blank_uncased:
  "to_upper (CHR '' '') = CHR '' ''" "to_lower (CHR '' '') = CHR '' ''" "\<not> is_cased (CHR '' '')"
  by (simp_all add: to_upper_def to_lower_def is_cased_def is_lower_def is_upper_def
        lower_letters_def upper_letters_def)

lemma title_from_snake:
  "snake_case s \<Longrightarrow>
     title_from False (replace_underscores s) = join_py '' '' (map capitalize (split_underscore s))
     \<and> title_from True (replace_underscores s) =
         join_py '' '' (hd (split_underscore s) # map capitalize (tl (split_underscore s)))"
proof (induction s)
  case Nil
  then show ?case by (simp add: replace_underscores_def capitalize_simps)
next
  case (Cons c s)
  then have snake: "snake_case s" and c: "is_lower c \<or> c = CHR ''_''"
    by (simp_all add: snake_case_def)
  obtain word words where sp: "split_underscore s = word # words"
    using split_underscore_nonempty [of s] by (cases "split_underscore s") auto
  from Cons.IH [OF snake]
  have ih1: "title_from False (replace_underscores s) = join_py '' '' (capitalize word # map capitalize words)"
    and ih2: "title_from True (replace_underscores s) = join_py '' '' (word # map capitalize words)"
    by (simp_all add: sp)
  have rep: "replace_underscores (c # s) = (if c = CHR ''_'' then CHR '' '' else c) # replace_underscores s"
    by (simp add: replace_underscores_def)
  show ?case
  proof (cases "c = CHR ''_''")
    case True
    have a: "title_from b (replace_underscores (c # s)) = CHR '' '' # title_from False (replace_underscores s)" for b
      unfolding rep using True by (simp add: blank_uncased)
    have b: "split_underscore (c # s) = [] # word # words"
      using True by (simp add: sp)
    show ?thesis
      unfolding a b by (simp add: ih1 capitalize_simps)
  next
    case False
    with c have low: "is_lower c" by simp
    have a: "title_from False (replace_underscores (c # s)) = to_upper c # title_from True (replace_underscores s)"
      unfolding rep using False by (simp add: lower_letter [OF low])
    have a': "title_from True (replace_underscores (c # s)) = c # title_from True (replace_underscores s)"
      unfolding rep using False by (simp add: lower_letter [OF low])
    have b: "split_underscore (c # s) = (c # word) # words"
      using False by (simp add: sp)
    show ?thesis
      unfolding a a' b ih2 by (simp add: capitalize_simps join_py_Cons_Cons)
  qed
qed

lemma title_py_label:
  "snake_case key \<Longrightarrow> key \<noteq> ''booking_url'' \<Longrightarrow> title_py (replace_underscores key) = spec_label key"
  by (simp add: title_py_def spec_label_def title_from_snake)

lemma booking_link_label: "title_py (replace_underscores ''booking_link'') = ''Booking Link''"
  by (simp add: title_py_def replace_underscores_def to_upper_def to_lower_def is_cased_def
        is_lower_def is_upper_def lower_letters_def upper_letters_def)

section \<open>Formatting one record\<close>

lemma format_field_spec:
  assumes wf: "wf_campsite c" and mem: "kv \<in> set c"
  shows "format_field kv = Inr (spec_line kv)"
proof -
  obtain key v where kv: "kv = (key, v)" by (cases kv)
  from wf mem kv have snake: "snake_case key"
    by (auto simp: wf_campsite_def list_all_iff)
  from wf mem kv have look: "map_of c key = Some v"
    by (simp add: wf_campsite_def)
  show ?thesis
  proof (cases "key = ''booking_url''")
    case True
    then show ?thesis
      by (simp add: kv format_field_def BOOKING_URL_def booking_link_label spec_line_def
            spec_label_def spec_value_def)
  next
    case not_url: False
    have label: "title_py (replace_underscores key) = spec_label key"
      by (rule title_py_label [OF snake not_url])
    show ?thesis
    proof (cases "key = ''booking_date'' \<or> key = ''booking_end_date''")
      case True
      with wf look have "is_valid_date (Some v)"
        by (auto simp: wf_campsite_def)
      then obtain d where v: "v = VDatetime d" and d: "valid_datetime d" and y: "1000 \<le> year d"
        by (auto simp: is_valid_date_def split: pyvalue.splits)
      from True not_url show ?thesis
        by (auto simp: kv format_field_def BOOKING_URL_def BOOKING_DATE_def BOOKING_END_DATE_def
              label spec_line_def spec_value_def v strftime_ymd_spec [OF d y])
    next
      case False
      with not_url show ?thesis
        by (simp add: kv format_field_def BOOKING_URL_def BOOKING_DATE_def BOOKING_END_DATE_def
              label spec_line_def spec_value_def)
    qed
  qed
qed

lemma format_fields_map:
  "\<forall>kv \<in> set items. format_field kv = Inr (render kv)
     \<Longrightarrow> format_fields items acc = Inr (acc @ map render items)"
  by (induction items arbitrary: acc) simp_all

lemma format_fields_spec: "wf_campsite c \<Longrightarrow> format_fields c [] = Inr (map spec_line c)"
  using format_fields_map [of c spec_line "[]"] by (simp add: format_field_spec)

lemma getattr_present: "map_of c name \<noteq> None \<Longrightarrow> getattr c name = Inr (field_of c name)"
  by (auto simp: getattr_def field_of_def)

lemma compose_title_spec:
  assumes "wf_campsite c"
  shows "compose_title c = Inr (spec_title c)"
proof -
  from assms have ra: "map_of c ''recreation_area'' \<noteq> None"
    and fn: "map_of c ''facility_name'' \<noteq> None"
    and bd: "is_valid_date (map_of c ''booking_date'')"
    unfolding wf_campsite_def by blast+
  from bd obtain d where look: "map_of c ''booking_date'' = Some (VDatetime d)"
    and d: "valid_datetime d" and y: "1000 \<le> year d"
    by (auto simp: is_valid_date_def split: option.splits pyvalue.splits)
  have f: "field_of c ''booking_date'' = VDatetime d"
    by (simp add: field_of_def look)
  have g: "getattr c ''booking_date'' = Inr (VDatetime d)"
    by (simp add: getattr_def look)
  show ?thesis
    by (simp add: compose_title_def getattr_present [OF ra] getattr_present [OF fn] g f
          spec_title_def spec_value_def strftime_ymd_spec [OF d y])
qed

section \<open>The batch loop\<close>

text \<open>The call the loop body makes: its options name the title and the type, nothing else.\<close>

lemma campsite_send:
  "send_message post text [(''title'', VStr t), (''type'', VStr ''note'')] w =
     (case post (posts w) (spec_request w (VStr ''note'') (VStr t) text []) of
        Raised e \<Rightarrow> (Inl e, posted (spec_request w (VStr ''note'') (VStr t) text []) w)
      | Responded r \<Rightarrow>
          if error_status (status_code r)
          then (Inl (ConnectionError (resp_text r) (HTTPError (http_error_msg r))),
                log_py WARNING
                  (LogStr (''Notifications weren't able to be sent to Pushbullet. '' @
                           ''Your configuration might be incorrect.''))
                  (posted (spec_request w (VStr ''note'') (VStr t) text []) w))
          else (Inr r, posted (spec_request w (VStr ''note'') (VStr t) text []) w))"
proof -
  have q: "message_request w text [(''title'', VStr t), (''type'', VStr ''note'')]
             = spec_request w (VStr ''note'') (VStr t) text []"
    by (simp add: message_request_def pop_def)
  show ?thesis
    unfolding q [symmetric] by (rule send_message_eq) simp_all
qed

lemma campsite_send_posts:
  "posts (snd (send_message post text [(''title'', VStr t), (''type'', VStr ''note'')] w))
     = posts w @ [spec_request w (VStr ''note'') (VStr t) text []]"
  by (simp add: campsite_send split: post_outcome.splits)

lemma send_campsites_loop_Cons:
  assumes "format_fields c [] = Inr lines" and "compose_title c = Inr t"
  shows "send_campsites_loop post (c # rest) w =
           (case send_message post (join_py [CHR 0x0A] lines)
                   [(''title'', VStr t), (''type'', VStr ''note'')] w of
              (Inl e, w') \<Rightarrow> (Inl e, w')
            | (Inr u, w') \<Rightarrow> send_campsites_loop post rest w')"
  using assms by simp

lemma send_campsites_loop_append:
  "send_campsites_loop post (xs @ ys) w =
     (case send_campsites_loop post xs w of
        (Inl e, w') \<Rightarrow> (Inl e, w')
      | (Inr u, w') \<Rightarrow> send_campsites_loop post ys w')"
  by (induction xs arbitrary: w) (auto split: sum.splits prod.splits)

lemma send_campsites_loop_count:
  "send_campsites_loop post xs w = (Inr u, w') \<Longrightarrow> length (posts w') = length (posts w) + length xs"
proof (induction xs arbitrary: w)
  case Nil
  then show ?case by simp
next
  case (Cons c xs)
  from Cons.prems obtain lines where l: "format_fields c [] = Inr lines"
    by (cases "format_fields c []") auto
  from Cons.prems l obtain t where t: "compose_title c = Inr t"
    by (cases "compose_title c") auto
  let ?step = "send_message post (join_py [CHR 0x0A] lines) [(''title'', VStr t), (''type'', VStr ''note'')] w"
  from Cons.prems obtain r w1 where step: "?step = (Inr r, w1)"
    and rest: "send_campsites_loop post xs w1 = (Inr u, w')"
    unfolding send_campsites_loop_Cons [OF l t] by (auto split: sum.splits prod.splits)
  have "posts w1 = posts w @ [spec_request w (VStr ''note'') (VStr t) (join_py [CHR 0x0A] lines) []]"
    using campsite_send_posts [of post "join_py [CHR 0x0A] lines" t w] by (simp add: step)
  with Cons.IH [OF rest] show ?case by simp
qed

text \<open>Every call the loop makes carries the three entries computed from a record.\<close>

lemma send_campsites_loop_payloads:
  "\<exists>qs. posts (snd (send_campsites_loop post campsites w)) = posts w @ qs
        \<and> (\<forall>q \<in> set qs. \<exists>c \<in> set campsites. \<exists>lines t.
               format_fields c [] = Inr lines \<and> compose_title c = Inr t
               \<and> json q = [(''type'', VStr ''note''), (''title'', VStr t),
                           (''body'', VStr (join_py [CHR 0x0A] lines))])"
proof (induction campsites arbitrary: w)
  case Nil
  show ?case by simp
next
  case (Cons c cs)
  show ?case
  proof (cases "format_fields c []")
    case (Inl e)
    then show ?thesis by simp
  next
    case lines: (Inr lines)
    show ?thesis
    proof (cases "compose_title c")
      case (Inl e)
      with lines show ?thesis by simp
    next
      case t: (Inr t)
      let ?text = "join_py [CHR 0x0A] lines"
      let ?q = "spec_request w (VStr ''note'') (VStr t) ?text []"
      obtain res w1 where step:
        "send_message post ?text [(''title'', VStr t), (''type'', VStr ''note'')] w = (res, w1)"
        by (cases "send_message post ?text [(''title'', VStr t), (''type'', VStr ''note'')] w")
      have p1: "posts w1 = posts w @ [?q]"
        using campsite_send_posts [of post ?text t w] by (simp add: step)
      have jq: "json ?q = [(''type'', VStr ''note''), (''title'', VStr t), (''body'', VStr ?text)]"
        by (simp add: spec_request_def)
      show ?thesis
      proof (cases res)
        case (Inl e)
        then have "posts (snd (send_campsites_loop post (c # cs) w)) = posts w @ [?q]"
          unfolding send_campsites_loop_Cons [OF lines t] by (simp add: step p1)
        then show ?thesis
          using lines t jq by (intro exI [of _ "[?q]"]) auto
      next
        case (Inr r)
        then have eq: "send_campsites_loop post (c # cs) w = send_campsites_loop post cs w1"
          unfolding send_campsites_loop_Cons [OF lines t] by (simp add: step)
        from Cons.IH [of w1] obtain qs where
          a: "posts (snd (send_campsites_loop post cs w1)) = posts w1 @ qs"
          and b: "\<forall>q \<in> set qs. \<exists>c \<in> set cs. \<exists>lines t.
               format_fields c [] = Inr lines \<and> compose_title c = Inr t
               \<and> json q = [(''type'', VStr ''note''), (''title'', VStr t),
                           (''body'', VStr (join_py [CHR 0x0A] lines))]"
          by blast
        have "posts (snd (send_campsites_loop post (c # cs) w)) = posts w @ (?q # qs)"
          unfolding eq by (simp add: a p1)
        moreover have "\<forall>q \<in> set (?q # qs). \<exists>c' \<in> set (c # cs). \<exists>lines t.
               format_fields c' [] = Inr lines \<and> compose_title c' = Inr t
               \<and> json q = [(''type'', VStr ''note''), (''title'', VStr t),
                           (''body'', VStr (join_py [CHR 0x0A] lines))]"
          using b lines t jq by auto
        ultimately show ?thesis by blast
      qed
    qed
  qed
qed

text \<open>The call: bound to the loop unless an option is named \<^verbatim>\<open>campsites\<close>.\<close>

lemma send_campsites_bound:
  "''campsites'' \<notin> set (map fst kwargs)
     \<Longrightarrow> send_campsites post campsites kwargs w = send_campsites_loop post campsites w"
  by (simp add: send_campsites_def)

lemma send_campsites_unbound:
  "''campsites'' \<in> set (map fst kwargs)
     \<Longrightarrow> send_campsites post campsites kwargs w
           = (Inl (TypeError ''send_campsites() got multiple values for argument''), w)"
  by (simp add: send_campsites_def)

lemma send_campsites_no_options:
  "send_campsites post campsites [] w = send_campsites_loop post campsites w"
  by (simp add: send_campsites_def)

section \<open>The example record, evaluated\<close>

lemma posts_example_world: "posts example_world = []"
  by (simp add: example_world_def)


lemma snake_eval:
  "snake_case ''facility_name''" "snake_case ''recreation_area''" "snake_case ''booking_date''"
  "snake_case ''booking_end_date''" "snake_case ''booking_url''"
  by (simp_all add: snake_case_def is_lower_def lower_letters_def)

lemma wf_upper_pines: "wf_campsite upper_pines"
  by (simp add: wf_campsite_def upper_pines_def snake_eval is_valid_date_def checkin_date_def
        checkout_date_def valid_datetime_def)

lemma to_upper_eval:
  "to_upper (CHR ''f'') = CHR ''F''" "to_upper (CHR ''n'') = CHR ''N''"
  "to_upper (CHR ''r'') = CHR ''R''" "to_upper (CHR ''a'') = CHR ''A''"
  "to_upper (CHR ''b'') = CHR ''B''" "to_upper (CHR ''d'') = CHR ''D''"
  "to_upper (CHR ''e'') = CHR ''E''"
  by (simp_all add: to_upper_def lower_letters_def upper_letters_def)

lemma line_eval:
  "spec_line (''facility_name'', VStr ''Upper Pines'') = ''Facility Name: Upper Pines''"
  "spec_line (''recreation_area'', VStr ''Yosemite'') = ''Recreation Area: Yosemite''"
  "spec_line (''booking_url'', VStr ''http://x'') = ''Booking Link: http://x''"
  by (simp_all add: spec_line_def spec_value_def spec_label_def capitalize_def to_upper_eval)

lemma date_eval:
  "spec_value ''booking_date'' checkin_date = ''2023-06-01''"
  "spec_value ''booking_end_date'' checkout_date = ''2023-06-02''"
  by (simp_all add: spec_value_def checkin_date_def checkout_date_def spec_ymd_def)
     (simp_all add: digit_char_def)

lemma date_line_eval:
  "spec_line (''booking_date'', checkin_date) = ''Booking Date: 2023-06-01''"
  "spec_line (''booking_end_date'', checkout_date) = ''Booking End Date: 2023-06-02''"
  by (simp_all add: spec_line_def date_eval spec_label_def capitalize_def to_upper_eval)

lemma upper_pines_request:
  "campsite_request example_world upper_pines =
     \<lparr>url = ''https://api.pushbullet.com/v2/pushes'',
      headers = [(''Content-Type'', Some ''application/json''), (''Access-Token'', Some ''o.abc'')],
      json = [(''type'', VStr ''note''), (''title'', VStr ''Yosemite | Upper Pines | 2023-06-01''),
              (''body'', VStr ''Facility Name: Upper Pines\<newline>Recreation Area: Yosemite\<newline>Booking Date: 2023-06-01\<newline>Booking End Date: 2023-06-02\<newline>Booking Link: http://x'')]\<rparr>"
  by (simp add: campsite_request_def spec_request_def example_world_def deref_def upper_pines_def
        spec_title_def spec_body_def field_of_def line_eval date_line_eval date_eval)

lemma send_upper_pines_accepted:
  "send_campsites (always_respond (respond_with 200 ''{}'')) [upper_pines] [] example_world
     = (Inr (), posted (campsite_request example_world upper_pines) example_world)"
  by (simp add: send_campsites_def format_fields_spec [OF wf_upper_pines]
        compose_title_spec [OF wf_upper_pines] campsite_send always_respond_def error_status_def
        respond_with_def campsite_request_def spec_body_def)

section \<open>The batch operation\<close>



text \<open>
  C6. When the send for record k raises (the delivery error, or any other exception of
  \<^verbatim>\<open>send_message\<close>) after the records before it went through, the batch operation ends
  with that very exception and in the world that send left: the records before k have
  one call each on record, record k has its one call, and whatever follows k in the
  batch is never looked at.
\<close>

theorem send_campsites_aborts_on_first_failure:
  assumes "send_campsites post before kwargs w = (Inr (), w1)"
    and "format_fields c [] = Inr lines" and "compose_title c = Inr t"
    and "send_message post (join_py [CHR 0x0A] lines)
           [(''title'', VStr t), (''type'', VStr ''note'')] w1 = (Inl e, w2)"
  shows "send_campsites post (before @ c # rest) kwargs w = (Inl e, w2)
         \<and> length (posts w1) = length (posts w) + length before
         \<and> posts w2 = posts w1 @ [spec_request w1 (VStr ''note'') (VStr t) (join_py [CHR 0x0A] lines) []]"
proof -
  have bound: "''campsites'' \<notin> set (map fst kwargs)"
    using assms(1) by (auto simp: send_campsites_def split: if_splits)
  have prefix: "send_campsites_loop post before w = (Inr (), w1)"
    using assms(1) by (simp add: send_campsites_bound [OF bound])
  have "send_campsites_loop post (c # rest) w1 = (Inl e, w2)"
    unfolding send_campsites_loop_Cons [OF assms(2,3)] by (simp add: assms(4))
  then have whole: "send_campsites post (before @ c # rest) kwargs w = (Inl e, w2)"
    by (simp add: send_campsites_bound [OF bound] send_campsites_loop_append prefix)
  have sent: "posts w2 = posts w1 @ [spec_request w1 (VStr ''note'') (VStr t) (join_py [CHR 0x0A] lines) []]"
    using campsite_send_posts [of post "join_py [CHR 0x0A] lines" t w1] by (simp add: assms(4))
  show ?thesis
    using whole sent send_campsites_loop_count [OF prefix] by simp
qed

theorem send_campsites_aborts_on_first_failure_witness:
  "fst (send_campsites fail_after_first [upper_pines, upper_pines, upper_pines] [] example_world)
     = Inl (ConnectionError ''Invalid token''
              (HTTPError (http_error_msg (respond_with 401 ''Invalid token''))))
   \<and> length (posts (snd (send_campsites fail_after_first [upper_pines, upper_pines, upper_pines] []
                          example_world))) = 2"
proof -
  let ?lines = "map spec_line upper_pines"
  let ?t = "spec_title upper_pines"
  let ?w1 = "posted (spec_request example_world (VStr ''note'') (VStr ?t) (join_py [CHR 0x0A] ?lines) [])
               example_world"
  obtain w2 where s1: "send_message fail_after_first (join_py [CHR 0x0A] ?lines)
                         [(''title'', VStr ?t), (''type'', VStr ''note'')] ?w1
                       = (Inl (ConnectionError ''Invalid token''
                                 (HTTPError (http_error_msg (respond_with 401 ''Invalid token'')))), w2)"
    by (simp add: campsite_send fail_after_first_def error_status_def respond_with_def)
  have f: "format_fields upper_pines [] = Inr ?lines"
    by (rule format_fields_spec [OF wf_upper_pines])
  have t: "compose_title upper_pines = Inr ?t"
    by (rule compose_title_spec [OF wf_upper_pines])
  have s0: "send_campsites fail_after_first [upper_pines] [] example_world = (Inr (), ?w1)"
    by (simp add: send_campsites_def f t campsite_send fail_after_first_def posts_example_world
          error_status_def respond_with_def)
  show ?thesis
    using send_campsites_aborts_on_first_failure [OF s0 f t s1, of "[upper_pines]"]
    by (simp add: posts_example_world)
qed

text \<open>
  C7. With an empty sequence of records the batch operation makes no call of
  \<^verbatim>\<open>requests.post\<close> and leaves the world as it was; and it raises nothing and returns
  normally when called with no options, or with any options that do not name \<open>campsites\<close>
  (the batch parameter itself, given twice by such a call).
\<close>

theorem send_campsites_empty:
  "snd (send_campsites post [] kwargs w) = w
   \<and> posts (snd (send_campsites post [] kwargs w)) = posts w
   \<and> send_campsites post [] [] w = (Inr (), w)
   \<and> (''campsites'' \<notin> set (map fst kwargs) \<longrightarrow> send_campsites post [] kwargs w = (Inr (), w))"
  by (simp add: send_campsites_def)

theorem send_campsites_empty_witness:
  "send_campsites (always_respond (respond_with 200 ''{}'')) [] [(''title'', VStr ''x'')] example_world
     = (Inr (), example_world)
   \<and> posts (snd (send_campsites (always_respond (respond_with 200 ''{}'')) []
                   [(''title'', VStr ''x'')] example_world)) = []"
  using send_campsites_empty
          [of "always_respond (respond_with 200 ''{}'')" "[(''title'', VStr ''x'')]" example_world]
  by (simp add: posts_example_world)

text \<open>
  C9, as the code has it. The options are not ignored completely: an option named
  \<open>campsites\<close> repeats the batch parameter, the call is a \<^verbatim>\<open>TypeError\<close> and nothing is sent,
  where the same batch without options is sent.
\<close>

theorem option_named_campsites_counterexample:
  "fst (send_campsites (always_respond (respond_with 200 ''{}'')) [upper_pines]
          [(''campsites'', VNone)] example_world)
     = Inl (TypeError ''send_campsites() got multiple values for argument'')
   \<and> posts (snd (send_campsites (always_respond (respond_with 200 ''{}'')) [upper_pines]
                   [(''campsites'', VNone)] example_world)) = []
   \<and> fst (send_campsites (always_respond (respond_with 200 ''{}'')) [upper_pines] [] example_world)
       = Inr ()
   \<and> length (posts (snd (send_campsites (always_respond (respond_with 200 ''{}'')) [upper_pines] []
                            example_world))) = 1"
  by (simp add: send_campsites_unbound send_upper_pines_accepted posts_example_world)

text \<open>
  C9, amended. Options that do not name \<open>campsites\<close> play no part: the run is the run
  with no options. And with any options at all, every call made has as its JSON body
  exactly the three entries \<open>type\<close>, \<open>title\<close>, \<open>body\<close>, the type \<open>note\<close>, the title and the
  body the ones computed from a record of the batch: no option of the caller is in any
  payload.
\<close>

theorem send_campsites_ignores_options:
  "(''campsites'' \<notin> set (map fst kwargs)
      \<longrightarrow> send_campsites post campsites kwargs w = send_campsites post campsites [] w)
   \<and> (\<exists>qs. posts (snd (send_campsites post campsites kwargs w)) = posts w @ qs
          \<and> (\<forall>q \<in> set qs. \<exists>c \<in> set campsites. \<exists>lines t.
                 format_fields c [] = Inr lines \<and> compose_title c = Inr t
                 \<and> json q = [(''type'', VStr ''note''), (''title'', VStr t),
                             (''body'', VStr (join_py [CHR 0x0A] lines))]))"
proof
  show "''campsites'' \<notin> set (map fst kwargs)
          \<longrightarrow> send_campsites post campsites kwargs w = send_campsites post campsites [] w"
    by (simp add: send_campsites_def)
  show "\<exists>qs. posts (snd (send_campsites post campsites kwargs w)) = posts w @ qs
          \<and> (\<forall>q \<in> set qs. \<exists>c \<in> set campsites. \<exists>lines t.
                 format_fields c [] = Inr lines \<and> compose_title c = Inr t
                 \<and> json q = [(''type'', VStr ''note''), (''title'', VStr t),
                             (''body'', VStr (join_py [CHR 0x0A] lines))])"
  proof (cases "''campsites'' \<in> set (map fst kwargs)")
    case True
    then show ?thesis
      by (simp add: send_campsites_unbound)
  next
    case False
    show ?thesis
      unfolding send_campsites_bound [OF False] by (rule send_campsites_loop_payloads)
  qed
qed

theorem send_campsites_ignores_options_witness:
  "map json (posts (snd (send_campsites (always_respond (respond_with 200 ''{}'')) [upper_pines]
      [(''type'', VStr ''link''), (''url'', VStr ''http://elsewhere'')] example_world))) =
     [[(''type'', VStr ''note''), (''title'', VStr ''Yosemite | Upper Pines | 2023-06-01''),
       (''body'', VStr ''Facility Name: Upper Pines\<newline>Recreation Area: Yosemite\<newline>Booking Date: 2023-06-01\<newline>Booking End Date: 2023-06-02\<newline>Booking Link: http://x'')]]"
proof -
  have no_clash: "''campsites'' \<notin> set (map fst [(''type'', VStr ''link''), (''url'', VStr ''http://elsewhere'')])"
    by simp
  have same_run:
    "send_campsites (always_respond (respond_with 200 ''{}'')) [upper_pines]
       [(''type'', VStr ''link''), (''url'', VStr ''http://elsewhere'')] example_world
     = send_campsites (always_respond (respond_with 200 ''{}'')) [upper_pines] [] example_world"
    using send_campsites_ignores_options
            [of "[(''type'', VStr ''link''), (''url'', VStr ''http://elsewhere'')]"
                "always_respond (respond_with 200 ''{}'')" "[upper_pines]" example_world]
          no_clash
    by blast
  show ?thesis
    unfolding same_run send_upper_pines_accepted
    by (simp add: posts_example_world upper_pines_request)
qed

end
